theory Spec2Isabelle
  imports Main "HOL-Library.Word"
begin

section \<open>The standard library as the package uses it\<close>

text \<open>
  \<open>localdate.go\<close> builds every finite date through Go's \<open>time\<close> package:
  \<open>time.Date\<close>, \<open>time.Unix\<close>, \<open>Time.Date\<close>, \<open>Time.Format\<close> and \<open>time.Parse\<close>,
  always with the layout \<open>2006-01-02\<close>. The package is not part of the repository; this
  section models the calls the repository makes, after the library's documented
  behaviour (proleptic Gregorian calendar, no leap seconds, out-of-range month and day
  arguments of \<open>time.Date\<close> normalised) and in the shape of the library's own algorithms:
  days are counted in cycles of 400, 100, 4 and 1 years.

  Go's \<open>int\<close> is modelled as \<open>int\<close>. The library computes in 64 bits from an epoch at
  1 January of year \<open>-292277022399\<close>, a year that is \<open>1\<close> modulo \<open>400\<close>; the model counts its
  cycles from year \<open>1\<close>, which puts every year at the same place in its cycle, and agrees
  with the library wherever the library's 64-bit arithmetic does not overflow. Every
  date a \<open>LocalDate\<close> can hold is millions of years inside that range.
\<close>

record time_Time =
  unixSec :: int     \<comment> \<open>seconds since 1970-01-01T00:00:00Z\<close>
  zoneOffset :: int  \<comment> \<open>seconds east of UTC of the instant's location\<close>

text \<open>\<open>time.Time{}\<close>, the zero instant: 1 January of year 1, 00:00:00 UTC.\<close>

definition zeroTime :: time_Time where
  "zeroTime = \<lparr>unixSec = - 62135596800, zoneOffset = 0\<rparr>"

text \<open>\<open>time.Unix(sec, 0).UTC()\<close>.\<close>

definition time_Unix_UTC :: "int \<Rightarrow> time_Time" where
  "time_Unix_UTC sec = \<lparr>unixSec = sec, zoneOffset = 0\<rparr>"

definition isLeap :: "int \<Rightarrow> bool" where
  "isLeap year \<longleftrightarrow> year mod 4 = 0 \<and> (year mod 100 \<noteq> 0 \<or> year mod 400 = 0)"

text \<open>\<open>daysBefore[m]\<close>: the days of a non-leap year before month \<open>m + 1\<close>.\<close>

definition daysBefore :: "int list" where
  "daysBefore = [0, 31, 59, 90, 120, 151, 181, 212, 243, 273, 304, 334, 365]"

definition daysIn :: "int \<Rightarrow> int \<Rightarrow> int" where
  "daysIn m year =
     (if m = 2 \<and> isLeap year then 29
      else daysBefore ! nat m - daysBefore ! nat (m - 1))"

text \<open>
  \<open>norm(hi, lo, base)\<close> brings \<open>lo\<close> into \<open>[0, base)\<close> and carries into \<open>hi\<close>. Both
  divisions are of non-negative numbers, where Go's truncating \<open>/\<close> and \<open>div\<close> agree.
\<close>

definition norm :: "int \<Rightarrow> int \<Rightarrow> int \<Rightarrow> int \<times> int" where
  "norm hi lo base =
     (let (hi1, lo1) =
            (if lo < 0
             then (let n = (- lo - 1) div base + 1 in (hi - n, lo + n * base))
             else (hi, lo))
      in if lo1 \<ge> base
         then (let n = lo1 div base in (hi1 + n, lo1 - n * base))
         else (hi1, lo1))"

text \<open>Days from 1 January of year 1 to 1 January of \<open>year\<close>.\<close>

definition daysSinceEpoch :: "int \<Rightarrow> int" where
  "daysSinceEpoch year =
     (let y = year - 1;
          n400 = y div 400; y1 = y - 400 * n400;
          n100 = y1 div 100; y2 = y1 - 100 * n100;
          n4 = y2 div 4; y3 = y2 - 4 * n4
      in 146097 * n400 + 36524 * n100 + 1461 * n4 + 365 * y3)"

text \<open>Days from 1 January of year 1 to 1 January 1970.\<close>

definition unixEpochDay :: int where
  "unixEpochDay = 719162"

text \<open>
  The day number (from 1 January of year 1) of \<open>time.Date(year, month, day, ...)\<close>:
  the month is normalised into the year, the day is added as it is.
\<close>

definition dateToAbsDays :: "int \<Rightarrow> int \<Rightarrow> int \<Rightarrow> int" where
  "dateToAbsDays year month day =
     (let (y, m) = norm year (month - 1) 12;
          mo = m + 1
      in daysSinceEpoch y + daysBefore ! nat (mo - 1)
         + (if isLeap y \<and> mo \<ge> 3 then 1 else 0)
         + (day - 1))"

text \<open>\<open>time.Date(year, month, day, 0, 0, 0, 0, time.UTC)\<close>.\<close>

definition time_Date :: "int \<Rightarrow> int \<Rightarrow> int \<Rightarrow> time_Time" where
  "time_Date year month day =
     \<lparr>unixSec = (dateToAbsDays year month day - unixEpochDay) * 86400, zoneOffset = 0\<rparr>"

text \<open>
  \<open>absDate\<close>, first half: the year of day number \<open>d\<close> and the day within that year,
  from 0. A quotient of 4 is cut to 3 on the last day of a 400-year and of a 4-year
  cycle (\<open>n -= n >> 2\<close>).
\<close>

definition absYear :: "int \<Rightarrow> int \<times> int" where
  "absYear d =
     (let n400 = d div 146097; d1 = d - 146097 * n400;
          q100 = d1 div 36524; n100 = q100 - q100 div 4; d2 = d1 - 36524 * n100;
          n4 = d2 div 1461; d3 = d2 - 1461 * n4;
          q1 = d3 div 365; n1 = q1 - q1 div 4; yday = d3 - 365 * n1
      in (400 * n400 + 100 * n100 + 4 * n4 + n1 + 1, yday))"

text \<open>
  \<open>absDate\<close>, second half: month and day of month from the day of the year. The month
  is estimated as if every month had 31 days and corrected by at most one.
\<close>

definition yearDayToDate :: "bool \<Rightarrow> int \<Rightarrow> int \<times> int" where
  "yearDayToDate leap yday =
     (if leap \<and> yday = 31 + 29 - 1 then (2, 29)
      else
        (let day = (if leap \<and> yday > 31 + 29 - 1 then yday - 1 else yday);
             month = day div 31;
             end = daysBefore ! nat (month + 1);
             (month1, begin) =
                (if day \<ge> end then (month + 1, end)
                 else (month, daysBefore ! nat month))
         in (month1 + 1, day - begin + 1)))"

definition absDate :: "int \<Rightarrow> int \<times> int \<times> int" where
  "absDate d =
     (let (year, yday) = absYear d;
          (month, day) = yearDayToDate (isLeap year) yday
      in (year, month, day))"

text \<open>
  \<open>t.Date()\<close>: year, month and day of the instant in its own location. The division
  is the library's unsigned one on a count from its far epoch, so it rounds down.
\<close>

definition Time_Date :: "time_Time \<Rightarrow> int \<times> int \<times> int" where
  "Time_Date t = absDate ((unixSec t + zoneOffset t) div 86400 + unixEpochDay)"

subsection \<open>Formatting and parsing with the layout \<open>2006-01-02\<close>\<close>

definition digitChar :: "nat \<Rightarrow> char" where
  "digitChar n = char_of (48 + n)"

definition isDigit :: "char \<Rightarrow> bool" where
  "isDigit c \<longleftrightarrow> (48::nat) \<le> of_char c \<and> of_char c \<le> (57::nat)"

definition digitVal :: "char \<Rightarrow> int" where
  "digitVal c = int (of_char c) - 48"

fun itoa :: "nat \<Rightarrow> string" where
  "itoa n = (if n < 10 then [digitChar n] else itoa (n div 10) @ [digitChar (n mod 10)])"

declare itoa.simps [simp del]

text \<open>\<open>appendInt\<close>: a minus sign for a negative number, then at least \<open>width\<close> digits.\<close>

definition appendInt :: "int \<Rightarrow> nat \<Rightarrow> string" where
  "appendInt x width =
     (let ds = itoa (nat \<bar>x\<bar>)
      in (if x < 0 then ''-'' else '''') @ replicate (width - length ds) CHR ''0'' @ ds)"

definition Time_Format :: "time_Time \<Rightarrow> string" where
  "Time_Format t =
     (let (year, month, day) = Time_Date t
      in appendInt year 4 @ ''-'' @ appendInt month 2 @ ''-'' @ appendInt day 2)"

datatype error =
    ParseError              \<comment> \<open>\<open>*time.ParseError\<close>\<close>
  | SyntaxError             \<comment> \<open>\<open>*json.SyntaxError\<close>\<close>
  | UnmarshalTypeError      \<comment> \<open>\<open>*json.UnmarshalTypeError\<close>\<close>
  | ScanTypeError string    \<comment> \<open>\<open>fmt.Errorf("unsupported Scan, storing %T into LocalDate")\<close>\<close>

text \<open>
  \<open>time.Parse("2006-01-02", s)\<close>. The year is exactly four digits, then a hyphen, a
  two-digit month in \<open>1..12\<close>, a hyphen, a two-digit day, and nothing after it; the day
  is then checked against the length of the month.
\<close>

definition time_Parse :: "string \<Rightarrow> error + time_Time" where
  "time_Parse s =
     (case s of
        [y1, y2, y3, y4, h1, m1, m2, h2, d1, d2] \<Rightarrow>
          if isDigit y1 \<and> isDigit y2 \<and> isDigit y3 \<and> isDigit y4 \<and> h1 = CHR ''-''
             \<and> isDigit m1 \<and> isDigit m2 \<and> h2 = CHR ''-'' \<and> isDigit d1 \<and> isDigit d2
          then
            (let year = 1000 * digitVal y1 + 100 * digitVal y2 + 10 * digitVal y3 + digitVal y4;
                 month = 10 * digitVal m1 + digitVal m2;
                 day = 10 * digitVal d1 + digitVal d2
             in if month \<le> 0 \<or> 12 < month then Inl ParseError
                else if day < 1 \<or> day > daysIn month year then Inl ParseError
                else Inr (time_Date year month day))
          else Inl ParseError
      | _ \<Rightarrow> Inl ParseError)"

section \<open>The package \<open>localdate\<close>\<close>

record LocalDate =
  Days :: "32 word"   \<comment> \<open>\<open>int32\<close>, read with \<open>sint\<close>\<close>
  Valid :: bool

definition daysInfinity :: "32 word" where
  "daysInfinity = 2147483647"

definition daysNegInfinity :: "32 word" where
  "daysNegInfinity = - 2147483648"

text \<open>Go's \<open>/\<close> on integers truncates towards zero.\<close>

definition go_div :: "int \<Rightarrow> int \<Rightarrow> int" where
  "go_div a b = sgn a * sgn b * (\<bar>a\<bar> div \<bar>b\<bar>)"

text \<open>\<open>int32(x)\<close> keeps the low 32 bits.\<close>

definition NewLocalDate :: "int \<Rightarrow> int \<Rightarrow> int \<Rightarrow> LocalDate" where
  "NewLocalDate year month day =
     (let t = time_Date year month day;
          epochDays = (word_of_int (go_div (unixSec t) 86400) :: 32 word)
      in \<lparr>Days = epochDays, Valid = True\<rparr>)"

definition InfinityDate :: LocalDate where
  "InfinityDate = \<lparr>Days = daysInfinity, Valid = True\<rparr>"

definition NegInfinityDate :: LocalDate where
  "NegInfinityDate = \<lparr>Days = daysNegInfinity, Valid = True\<rparr>"

definition IsInfinity :: "LocalDate \<Rightarrow> bool" where
  "IsInfinity d \<longleftrightarrow> Days d = daysInfinity"

definition IsNegInfinity :: "LocalDate \<Rightarrow> bool" where
  "IsNegInfinity d \<longleftrightarrow> Days d = daysNegInfinity"

definition Time :: "LocalDate \<Rightarrow> time_Time" where
  "Time d =
     (if IsInfinity d then zeroTime
      else time_Unix_UTC (sint (Days d) * 86400))"

definition InfinityModifier :: "LocalDate \<Rightarrow> int" where
  "InfinityModifier d =
     (if Days d = daysInfinity then 1
      else if Days d = daysNegInfinity then - 1
      else 0)"

text \<open>
  The text adapter reads and writes JSON. A byte slice is represented by what
  \<open>encoding/json\<close> makes of it, which is all the adapter sees of it: a string literal
  with its decoded contents, the literal \<open>null\<close>, another well-formed value, or bytes
  that are not JSON.
\<close>

datatype json_bytes =
    JsonString string
  | JsonNull
  | JsonOtherValue
  | JsonMalformed

text \<open>\<open>json.Unmarshal(data, &s)\<close> for a fresh \<open>var s string\<close>; \<open>null\<close> leaves \<open>s\<close> empty.\<close>

definition json_Unmarshal_string :: "json_bytes \<Rightarrow> error + string" where
  "json_Unmarshal_string data =
     (case data of
        JsonString s \<Rightarrow> Inr s
      | JsonNull \<Rightarrow> Inr []
      | JsonOtherValue \<Rightarrow> Inl UnmarshalTypeError
      | JsonMalformed \<Rightarrow> Inl SyntaxError)"

definition MarshalJSON :: "LocalDate \<Rightarrow> json_bytes \<times> error option" where
  "MarshalJSON d =
     (if IsInfinity d then (JsonString ''infinity'', None)
      else if IsNegInfinity d then (JsonString ''-infinity'', None)
      else (JsonString (Time_Format (Time d)), None))"

text \<open>
  Methods on \<open>*LocalDate\<close> take the receiver's value and return the error with the
  value the receiver holds afterwards.
\<close>

definition UnmarshalJSON :: "LocalDate \<Rightarrow> json_bytes \<Rightarrow> error option \<times> LocalDate" where
  "UnmarshalJSON d data =
     (case json_Unmarshal_string data of
        Inl err \<Rightarrow> (Some err, d)
      | Inr s \<Rightarrow>
          if s = ''infinity'' then (None, d\<lparr>Days := daysInfinity\<rparr>)
          else if s = ''-infinity'' then (None, d\<lparr>Days := daysNegInfinity\<rparr>)
          else
            (case time_Parse s of
               Inl err \<Rightarrow> (Some err, d)
             | Inr t \<Rightarrow>
                 (let (year, month, day) = Time_Date t
                  in (None, NewLocalDate year month day))))"

text \<open>
  The argument of \<open>Scan\<close> is an \<open>interface{}\<close>: a \<open>time.Time\<close>, a \<open>string\<close>, \<open>nil\<close>, or
  a value of any other type, of which \<open>Scan\<close> reads the type's name only.
\<close>

datatype scan_value =
    ScanTime time_Time
  | ScanString string
  | ScanNil
  | ScanOther string

definition Scan :: "LocalDate \<Rightarrow> scan_value \<Rightarrow> error option \<times> LocalDate" where
  "Scan d v =
     (case v of
        ScanTime t \<Rightarrow>
          (let (year, month, day) = Time_Date t
           in (None, NewLocalDate year month day))
      | ScanString s \<Rightarrow>
          if s = ''infinity'' then (None, d\<lparr>Days := daysInfinity\<rparr>)
          else if s = ''-infinity'' then (None, d\<lparr>Days := daysNegInfinity\<rparr>)
          else
            (case time_Parse s of
               Inl err \<Rightarrow> (Some err, d)
             | Inr t \<Rightarrow>
                 (let (year, month, day) = Time_Date t
                  in (None, NewLocalDate year month day)))
      | ScanNil \<Rightarrow> (None, d)
      | ScanOther ty \<Rightarrow> (Some (ScanTypeError ty), d))"

datatype driver_Value =
    DriverString string
  | DriverTime time_Time

definition Value :: "LocalDate \<Rightarrow> driver_Value \<times> error option" where
  "Value d =
     (if IsInfinity d then (DriverString ''infinity'', None)
      else if IsNegInfinity d then (DriverString ''-infinity'', None)
      else (DriverTime (Time d), None))"

text \<open>\<open>pgtype.Date\<close>; its zero value is invalid, at the zero instant, and finite.\<close>

record pgtype_Date =
  pgTime :: time_Time
  pgInfinityModifier :: int
  pgValid :: bool

definition PgDate :: "LocalDate \<Rightarrow> pgtype_Date" where
  "PgDate d =
     (if \<not> Valid d then \<lparr>pgTime = zeroTime, pgInfinityModifier = 0, pgValid = False\<rparr>
      else if InfinityModifier d \<noteq> 0
      then \<lparr>pgTime = zeroTime, pgInfinityModifier = InfinityModifier d, pgValid = True\<rparr>
      else \<lparr>pgTime = Time d, pgInfinityModifier = 0, pgValid = True\<rparr>)"

text \<open>The zero value \<open>LocalDate{}\<close>.\<close>

definition zeroLocalDate :: LocalDate where
  "zeroLocalDate = \<lparr>Days = 0, Valid = False\<rparr>"

definition At :: "string \<Rightarrow> LocalDate \<times> error option" where
  "At at =
     (case time_Parse at of
        Inl err \<Rightarrow> (zeroLocalDate, Some err)
      | Inr t \<Rightarrow>
          (let (year, month, day) = Time_Date t
           in (NewLocalDate year month day, None)))"

definition ToLocalDate :: "time_Time \<Rightarrow> LocalDate" where
  "ToLocalDate t = (let (year, month, day) = Time_Date t in NewLocalDate year month day)"

definition IsEqual :: "LocalDate \<Rightarrow> LocalDate \<Rightarrow> bool" where
  "IsEqual a b \<longleftrightarrow> a = b"

definition IsAfter :: "LocalDate \<Rightarrow> LocalDate \<Rightarrow> bool" where
  "IsAfter a b \<longleftrightarrow> sint (Days a) > sint (Days b)"

definition IsBefore :: "LocalDate \<Rightarrow> LocalDate \<Rightarrow> bool" where
  "IsBefore a b \<longleftrightarrow> sint (Days a) < sint (Days b)"

definition AddDays :: "LocalDate \<Rightarrow> int \<Rightarrow> LocalDate" where
  "AddDays a n =
     (if IsInfinity a \<or> IsNegInfinity a then a
      else \<lparr>Days = Days a + word_of_int n, Valid = True\<rparr>)"

definition AddDate :: "LocalDate \<Rightarrow> int \<Rightarrow> int \<Rightarrow> int \<Rightarrow> LocalDate" where
  "AddDate t years months days =
     (if IsInfinity t \<or> IsNegInfinity t then t
      else
        (let (year, month, day) = Time_Date (Time t)
         in NewLocalDate (year + years) (month + months) (day + days)))"

definition IsBetween :: "LocalDate \<Rightarrow> LocalDate \<Rightarrow> LocalDate \<Rightarrow> bool" where
  "IsBetween needle from to \<longleftrightarrow>
     sint (Days needle) \<ge> sint (Days from) \<and> sint (Days needle) \<le> sint (Days to)"

section \<open>Day counts as signed 32-bit integers\<close>


lemma sint_daysInfinity: "sint daysInfinity = 2147483647"
  by (simp add: daysInfinity_def)

lemma sint_daysNegInfinity: "sint daysNegInfinity = - 2147483648"
  by (simp add: daysNegInfinity_def)

lemma sint_upper: "sint (w :: 32 word) \<le> 2147483647"
  using sint_lt [of w] by simp

lemma sint_lower: "- 2147483648 \<le> sint (w :: 32 word)"
  using sint_ge [of w] by simp

lemma sint_inject32: "sint (v :: 32 word) = sint w \<longleftrightarrow> v = w"
  using word_eq_iff_signed [of v w, where ?'a = int] by auto

lemma eq_daysInfinity_iff: "w = daysInfinity \<longleftrightarrow> sint w = 2147483647"
  using sint_inject32 [of w daysInfinity] by (simp add: sint_daysInfinity)

lemma eq_daysNegInfinity_iff: "w = daysNegInfinity \<longleftrightarrow> sint w = - 2147483648"
  using sint_inject32 [of w daysNegInfinity] by (simp add: sint_daysNegInfinity)

lemma sint_add_word_of_int:
  "sint ((w :: 32 word) + word_of_int n) = signed_take_bit 31 (sint w + n)"
proof -
  have "w + word_of_int n = word_of_int (sint w + n)"
    by simp
  then show ?thesis
    by (simp only: sint_sbintrunc') simp
qed

text \<open>
  Claim C4. \<open>AddDays\<close> on either sentinel returns its argument unchanged, whatever \<open>n\<close>
  is. On any other day count it returns a valid date whose day count is the 32-bit sum
  of the day count and \<open>int32(n)\<close>: the sum of the two integers wrapped into the signed
  32-bit range, with no check and no saturation, and the exact sum where that fits.
\<close>

theorem AddDays_shift_or_absorb:
  "(IsInfinity a \<or> IsNegInfinity a \<longrightarrow> AddDays a n = a) \<and>
   (\<not> IsInfinity a \<and> \<not> IsNegInfinity a \<longrightarrow>
      Valid (AddDays a n) \<and>
      Days (AddDays a n) = Days a + word_of_int n \<and>
      sint (Days (AddDays a n)) = signed_take_bit 31 (sint (Days a) + n) \<and>
      (- 2147483648 \<le> sint (Days a) + n \<and> sint (Days a) + n \<le> 2147483647 \<longrightarrow>
         sint (Days (AddDays a n)) = sint (Days a) + n))"
proof -
  have wrap: "sint (Days a + word_of_int n) = signed_take_bit 31 (sint (Days a) + n)"
    by (rule sint_add_word_of_int)
  have exact: "signed_take_bit 31 (sint (Days a) + n) = sint (Days a) + n"
    if "- 2147483648 \<le> sint (Days a) + n" "sint (Days a) + n \<le> 2147483647"
    using that by (intro signed_take_bit_int_eq_self) simp_all
  show ?thesis
    using wrap exact by (simp add: AddDays_def)
qed

text \<open>Both sentinels with a shift, and 15 May 2023 (day 19492) plus five days.\<close>

theorem AddDays_witness:
  "AddDays InfinityDate 5 = InfinityDate \<and>
   AddDays NegInfinityDate (- 7) = NegInfinityDate \<and>
   Valid (AddDays \<lparr>Days = 19492, Valid = False\<rparr> 5) \<and>
   sint (Days (AddDays \<lparr>Days = 19492, Valid = False\<rparr> 5)) = 19497"
proof -
  have inf: "IsInfinity InfinityDate" and ninf: "IsNegInfinity NegInfinityDate"
    by (simp_all add: IsInfinity_def IsNegInfinity_def InfinityDate_def NegInfinityDate_def)
  have fin: "\<not> IsInfinity \<lparr>Days = 19492, Valid = False\<rparr> \<and> \<not> IsNegInfinity \<lparr>Days = 19492, Valid = False\<rparr>"
    by (simp add: IsInfinity_def IsNegInfinity_def daysInfinity_def daysNegInfinity_def)
  show ?thesis
    using AddDays_shift_or_absorb [of InfinityDate 5]
      AddDays_shift_or_absorb [of NegInfinityDate "- 7"]
      AddDays_shift_or_absorb [of "\<lparr>Days = 19492, Valid = False\<rparr>" 5]
      inf ninf fin
    by simp
qed

text \<open>
  Claim C6. \<open>IsBetween\<close> is the inclusive test \<open>from.Days \<le> needle.Days \<le> to.Days\<close> on
  the signed day counts and nothing else. From positive infinity to negative infinity
  it is false for every needle, hence for every finite one; with positive infinity as
  the lower end it holds only when needle and upper end are positive infinity as well,
  and with negative infinity as the upper end only when needle and lower end are
  negative infinity as well.
\<close>

theorem IsBetween_range_test:
  "(IsBetween needle from to \<longleftrightarrow>
      sint (Days from) \<le> sint (Days needle) \<and> sint (Days needle) \<le> sint (Days to)) \<and>
   (IsInfinity from \<and> IsNegInfinity to \<longrightarrow> \<not> IsBetween needle from to) \<and>
   (IsInfinity from \<longrightarrow>
      (IsBetween needle from to \<longleftrightarrow> IsInfinity needle \<and> IsInfinity to)) \<and>
   (IsNegInfinity to \<longrightarrow>
      (IsBetween needle from to \<longleftrightarrow> IsNegInfinity needle \<and> IsNegInfinity from))"
proof -
  have up: "\<And>w :: 32 word. sint w \<le> 2147483647" by (rule sint_upper)
  have lo: "\<And>w :: 32 word. - 2147483648 \<le> sint w" by (rule sint_lower)
  have a: "IsInfinity from \<Longrightarrow>
      (IsBetween needle from to \<longleftrightarrow> IsInfinity needle \<and> IsInfinity to)"
    using up [of "Days needle"] up [of "Days to"]
    by (auto simp: IsBetween_def IsInfinity_def eq_daysInfinity_iff)
  have b: "IsNegInfinity to \<Longrightarrow>
      (IsBetween needle from to \<longleftrightarrow> IsNegInfinity needle \<and> IsNegInfinity from)"
    using lo [of "Days needle"] lo [of "Days from"]
    by (auto simp: IsBetween_def IsNegInfinity_def eq_daysNegInfinity_iff)
  have c: "IsInfinity from \<Longrightarrow> IsNegInfinity to \<Longrightarrow> \<not> IsBetween needle from to"
    by (auto simp: IsBetween_def IsInfinity_def IsNegInfinity_def
        eq_daysInfinity_iff eq_daysNegInfinity_iff)
  show ?thesis
    using a b c by (auto simp: IsBetween_def)
qed

text \<open>The inverted range, the two degenerate ranges and the full range.\<close>

theorem IsBetween_witness:
  "\<not> IsBetween \<lparr>Days = 19492, Valid = True\<rparr> InfinityDate NegInfinityDate \<and>
   \<not> IsBetween InfinityDate InfinityDate NegInfinityDate \<and>
   IsBetween InfinityDate InfinityDate InfinityDate \<and>
   IsBetween NegInfinityDate NegInfinityDate NegInfinityDate \<and>
   IsBetween \<lparr>Days = 19492, Valid = True\<rparr> NegInfinityDate InfinityDate"
proof -
  have inf: "IsInfinity InfinityDate" and ninf: "IsNegInfinity NegInfinityDate"
    by (simp_all add: IsInfinity_def IsNegInfinity_def InfinityDate_def NegInfinityDate_def)
  have s: "sint (Days InfinityDate) = 2147483647" "sint (Days NegInfinityDate) = - 2147483648"
    by (simp_all add: InfinityDate_def NegInfinityDate_def sint_daysInfinity sint_daysNegInfinity)
  show ?thesis
    using IsBetween_range_test [of "\<lparr>Days = 19492, Valid = True\<rparr>" InfinityDate NegInfinityDate]
      IsBetween_range_test [of InfinityDate InfinityDate NegInfinityDate]
      IsBetween_range_test [of InfinityDate InfinityDate InfinityDate]
      IsBetween_range_test [of NegInfinityDate NegInfinityDate NegInfinityDate]
      IsBetween_range_test [of "\<lparr>Days = 19492, Valid = True\<rparr>" NegInfinityDate InfinityDate]
      inf ninf s
    by simp
qed

text \<open>
  Claim C9. \<open>Scan\<close> of \<open>nil\<close> returns no error and leaves the receiver as it was,
  \<open>Valid\<close> included. \<open>Scan\<close> of a value that is neither a \<open>time.Time\<close>, nor a
  \<open>string\<close>, nor \<open>nil\<close> returns the unsupported-type error and leaves the receiver as
  it was.
\<close>

theorem Scan_nil_noop_and_type_error:
  "Scan d ScanNil = (None, d) \<and>
   ((\<forall>t. v \<noteq> ScanTime t) \<and> (\<forall>s. v \<noteq> ScanString s) \<and> v \<noteq> ScanNil \<longrightarrow>
      (\<exists>ty. Scan d v = (Some (ScanTypeError ty), d)))"
  by (cases v) (simp_all add: Scan_def)

text \<open>A valid receiver and the zero value under \<open>nil\<close>, and an \<open>int64\<close> argument.\<close>

theorem Scan_witness:
  "Scan \<lparr>Days = 7, Valid = True\<rparr> ScanNil = (None, \<lparr>Days = 7, Valid = True\<rparr>) \<and>
   Scan zeroLocalDate ScanNil = (None, zeroLocalDate) \<and>
   (\<exists>ty. Scan \<lparr>Days = 7, Valid = True\<rparr> (ScanOther ''int64'')
      = (Some (ScanTypeError ty), \<lparr>Days = 7, Valid = True\<rparr>))"
  using Scan_nil_noop_and_type_error [of "\<lparr>Days = 7, Valid = True\<rparr>" "ScanOther ''int64''"]
    Scan_nil_noop_and_type_error [of zeroLocalDate ScanNil]
  by simp

end
